theory Spec2Isabelle
  imports Complex_Main "HOL-Library.Char_ord" "HOL-Library.List_Lexorder"
begin

section \<open>Sub-Saharan crop forecast viewer: data model\<close>

text \<open>
  The viewer (\<^verbatim>\<open>app.py\<close>, \<^verbatim>\<open>visualizations.py\<close>) reads four tables and a GeoJSON
  document and filters the tables with pandas. A table is the list of its rows in file
  order. A float64 value that the code only hands on (a yield, a forecast metric, an EO
  observation) is given by its exact rational value, a missing one (NaN, None) by
  \<open>None\<close>. The centroid coordinates are the one place where the code computes with
  float64 numbers; they are values of a type \<open>'f\<close>, see the section on float64 below.
  Python exceptions are values of \<open>py_error\<close>, and a function that may raise returns
  \<open>py_error + 'a\<close>.
\<close>

datatype py_error = IndexError | KeyError | ValueError

datatype cell = Num rat | Str string | NaN

text \<open>One row of \<^verbatim>\<open>viewer_yield_fcst_error.parquet\<close>. The eight key columns are
  fields; every other column is an entry of \<open>f_metrics\<close>. A year is a whole number or
  missing, so \<^verbatim>\<open>int(yrs.min())\<close> and \<^verbatim>\<open>int(yrs.max())\<close> change nothing.\<close>

record forecast_row =
  f_fnid :: string
  f_country :: string
  f_admin1 :: string
  f_admin2 :: string
  f_season :: string
  f_year :: "int option"
  f_model :: string
  f_lead :: int
  f_metrics :: "(string \<times> rat option) list"

record fcst_table =
  metric_columns :: "string list"
  fcst_rows :: "forecast_row list"

text \<open>One row of \<^verbatim>\<open>viewer_yield.parquet\<close> (fnid, year, yield).\<close>

record yield_row =
  y_fnid :: string
  y_year :: int
  y_yield_obs :: rat

text \<open>One row of \<^verbatim>\<open>cape_eo_formatted.parquet\<close>; the date is a day number.\<close>

record eo_row =
  e_fnid :: string
  e_date :: int
  e_vars :: "(string \<times> rat option) list"

text \<open>The EO table: the names of its variable columns, and its rows.\<close>

record eo_table =
  eo_columns :: "string list"
  eo_rows :: "eo_row list"

text \<open>One row of the geometry table \<open>gdf\<close>. The centroid columns hold float64 values,
  NaN among them.\<close>

record 'f region =
  g_fnid :: string
  g_admin0 :: string
  g_admin1 :: string
  g_admin2 :: string
  g_centroid_lat :: 'f
  g_centroid_lon :: 'f

text \<open>One feature of the GeoJSON document: its properties.\<close>

record feature =
  p_fnid :: string
  p_admin0 :: string
  p_admin1 :: string
  p_admin2 :: string

type_synonym geojson = "feature list"

section \<open>The pandas operations the code uses\<close>

text \<open>\<^verbatim>\<open>df[mask]\<close>: the rows at which the boolean series is true, in table order.\<close>

definition boolean_index :: "'a list \<Rightarrow> bool list \<Rightarrow> 'a list" where
  "boolean_index df msk = map fst (filter snd (zip df msk))"

text \<open>\<^verbatim>\<open>series == value\<close>, element by element. A missing value on either side
  compares unequal.\<close>

fun py_eq :: "'a option \<Rightarrow> 'a option \<Rightarrow> bool" where
  "py_eq (Some a) (Some b) = (a = b)"
| "py_eq a b = False"

definition eq_mask :: "'a option list \<Rightarrow> 'a option \<Rightarrow> bool list" where
  "eq_mask series v = map (\<lambda>x. py_eq x v) series"

text \<open>\<^verbatim>\<open>series.isin(values)\<close> and the query's \<^verbatim>\<open>fnid in @country_fnids\<close>.\<close>

definition isin :: "'a list \<Rightarrow> 'a list \<Rightarrow> bool list" where
  "isin series vals = map (\<lambda>x. x \<in> set vals) series"

text \<open>\<^verbatim>\<open>a & b\<close> on boolean series.\<close>

definition mask_and :: "bool list \<Rightarrow> bool list \<Rightarrow> bool list" where
  "mask_and a b = map (\<lambda>(p, q). p \<and> q) (zip a b)"

text \<open>\<^verbatim>\<open>series.unique()\<close>: the distinct values in order of first appearance.\<close>

definition unique_step :: "'a list \<Rightarrow> 'a \<Rightarrow> 'a list" where
  "unique_step seen x = (if x \<in> set seen then seen else seen @ [x])"

definition unique :: "'a list \<Rightarrow> 'a list" where
  "unique series = foldl unique_step [] series"

text \<open>\<^verbatim>\<open>series.dropna()\<close>.\<close>

fun dropna :: "'a option list \<Rightarrow> 'a list" where
  "dropna [] = []"
| "dropna (None # xs) = dropna xs"
| "dropna (Some x # xs) = x # dropna xs"

text \<open>\<^verbatim>\<open>df.iloc[0]\<close>: the first row, IndexError on an empty frame.\<close>

definition iloc0 :: "'a list \<Rightarrow> py_error + 'a" where
  "iloc0 df = (case df of [] \<Rightarrow> Inl IndexError | r # _ \<Rightarrow> Inr r)"

text \<open>\<^verbatim>\<open>series.min()\<close>, \<^verbatim>\<open>series.max()\<close> of a non-empty series of whole numbers.\<close>

fun series_min :: "int list \<Rightarrow> int" where
  "series_min [] = 0"
| "series_min (x # xs) = foldl min x xs"

fun series_max :: "int list \<Rightarrow> int" where
  "series_max [] = 0"
| "series_max (x # xs) = foldl max x xs"


text \<open>\<^verbatim>\<open>list(range(a, b))\<close>.\<close>

definition py_range :: "int \<Rightarrow> int \<Rightarrow> int list" where
  "py_range a b = [a..b - 1]"

section \<open>float64 and Series.mean\<close>

text \<open>
  The values of a float64 column are of a type \<open>'f\<close>. The model does no float64
  arithmetic of its own: what numpy computes is given by a record of operations, a
  parameter of every function that averages. \<open>fl_isnan\<close> tells a missing value,
  \<open>fl_nan\<close> is NaN, \<open>fl_zero\<close> is 0.0, \<open>fl_sum\<close> is the float64 sum of an array as
  \<^verbatim>\<open>values.sum()\<close> computes it, in whatever order it adds and rounds, and \<open>fl_div\<close>
  is the float64 quotient of a sum by a count.
\<close>

record 'f float_ops =
  fl_isnan :: "'f \<Rightarrow> bool"
  fl_nan :: 'f
  fl_zero :: 'f
  fl_sum :: "'f list \<Rightarrow> 'f"
  fl_div :: "'f \<Rightarrow> nat \<Rightarrow> 'f"

text \<open>\<^verbatim>\<open>series.mean()\<close> with the default \<^verbatim>\<open>skipna=True\<close>, as pandas' \<^verbatim>\<open>nanmean\<close> does it:
  the count is the number of values that are not missing, the missing values are replaced
  by 0.0, the array is summed, and the mean is the sum divided by the count, NaN when the
  count is 0.\<close>

definition notna_count :: "'f float_ops \<Rightarrow> 'f list \<Rightarrow> nat" where
  "notna_count fl xs = length (filter (\<lambda>x. \<not> fl_isnan fl x) xs)"

definition fillna_zero :: "'f float_ops \<Rightarrow> 'f list \<Rightarrow> 'f list" where
  "fillna_zero fl xs = map (\<lambda>x. if fl_isnan fl x then fl_zero fl else x) xs"

definition series_mean :: "'f float_ops \<Rightarrow> 'f list \<Rightarrow> 'f" where
  "series_mean fl xs =
     (let count = notna_count fl xs
      in if count = 0 then fl_nan fl else fl_div fl (fl_sum fl (fillna_zero fl xs)) count)"

section \<open>visualizations.py: create\_map\<close>

record trace =
  tr_geojson :: geojson
  tr_locations :: "string list"
  tr_z :: "cell list"
  tr_featureidkey :: string
  tr_colorscale :: string
  tr_marker_line_width :: rat
  tr_colorbar_title :: string
  tr_text :: "string list"
  tr_hovertemplate :: string

record 'f layout =
  mapbox_style :: string
  mapbox_zoom :: int
  mapbox_center_lat :: 'f
  mapbox_center_lon :: 'f
  margin_r :: int
  margin_t :: int
  margin_l :: int
  margin_b :: int

record 'f figure =
  fig_data :: "trace list"
  fig_layout :: "'f layout"

definition key_columns :: "string list" where
  "key_columns = [''fnid'', ''country'', ''admin1'', ''admin2'', ''season'', ''year'',
                  ''model'', ''lead'']"

definition columns :: "fcst_table \<Rightarrow> string list" where
  "columns t = key_columns @ metric_columns t"

text \<open>The value of row \<open>r\<close> in column \<open>c\<close>.\<close>

definition get_cell :: "forecast_row \<Rightarrow> string \<Rightarrow> cell" where
  "get_cell r c =
     (if c = ''fnid'' then Str (f_fnid r)
      else if c = ''country'' then Str (f_country r)
      else if c = ''admin1'' then Str (f_admin1 r)
      else if c = ''admin2'' then Str (f_admin2 r)
      else if c = ''season'' then Str (f_season r)
      else if c = ''year'' then (case f_year r of None \<Rightarrow> NaN | Some y \<Rightarrow> Num (of_int y))
      else if c = ''model'' then Str (f_model r)
      else if c = ''lead'' then Num (of_int (f_lead r))
      else (case map_of (f_metrics r) c of Some (Some v) \<Rightarrow> Num v | _ \<Rightarrow> NaN))"

text \<open>\<^verbatim>\<open>df[name]\<close> on a frame with the columns of \<open>t\<close>: KeyError when there is no
  such column.\<close>

definition getitem :: "fcst_table \<Rightarrow> forecast_row list \<Rightarrow> string \<Rightarrow> py_error + cell list" where
  "getitem t df c =
     (if c \<in> set (columns t) then Inr (map (\<lambda>r. get_cell r c) df) else Inl KeyError)"

definition label_map :: "(string \<times> string \<times> string) list" where
  "label_map =
     [(''yield_fcst'', (''Forecast Yield'', ''t/ha'')),
      (''yield_fcst_error'', (''Forecast Error'', ''t/ha'')),
      (''yield_fcst_perror'', (''Percent Error'', ''%''))]"

text \<open>\<^verbatim>\<open>label_map.get(selected_variable, (selected_variable, ""))\<close>.\<close>

definition var_label_unit :: "string \<Rightarrow> string \<times> string" where
  "var_label_unit v = (case map_of label_map v of Some lu \<Rightarrow> lu | None \<Rightarrow> (v, ''''))"

text \<open>The five-predicate query of \<^verbatim>\<open>create_map\<close> (lines 79 to 86): five boolean
  series over the forecast table, joined by \<^verbatim>\<open>&\<close>, then used as a row mask.\<close>

definition df_filt ::
  "forecast_row list \<Rightarrow> string list \<Rightarrow> string option \<Rightarrow> int option \<Rightarrow> string option
     \<Rightarrow> int option \<Rightarrow> forecast_row list" where
  "df_filt yield_fcst country_fnids selected_season selected_year selected_model selected_lead =
     boolean_index yield_fcst
       (mask_and (mask_and (mask_and (mask_and
          (isin (map f_fnid yield_fcst) country_fnids)
          (eq_mask (map (\<lambda>r. Some (f_season r)) yield_fcst) selected_season))
          (eq_mask (map f_year yield_fcst) selected_year))
          (eq_mask (map (\<lambda>r. Some (f_model r)) yield_fcst) selected_model))
          (eq_mask (map (\<lambda>r. Some (f_lead r)) yield_fcst) selected_lead))"

text \<open>\<^verbatim>\<open>df_filt[None]\<close> is a KeyError too: None names no column. The arguments of
  \<^verbatim>\<open>create_map\<close> other than \<^verbatim>\<open>_gdf\<close>. A selector is the value
  a selectbox returned, None when its option list was empty.\<close>

record map_args =
  a_yield_fcst :: fcst_table
  a_geojson :: geojson
  a_selected_variable :: "string option"
  a_country_fnids :: "string list"
  a_selected_country :: "string option"
  a_selected_season :: "string option"
  a_selected_year :: "int option"
  a_selected_model :: "string option"
  a_selected_lead :: "int option"

definition choropleth_trace ::
  "geojson \<Rightarrow> forecast_row list \<Rightarrow> cell list \<Rightarrow> string \<Rightarrow> trace" where
  "choropleth_trace gj df zs v =
     (let (var_label, var_unit) = var_label_unit v in
      \<lparr> tr_geojson = gj,
        tr_locations = map f_fnid df,
        tr_z = zs,
        tr_featureidkey = ''properties.fnid'',
        tr_colorscale = ''RdYlBu'',
        tr_marker_line_width = 1 / 2,
        tr_colorbar_title = var_label,
        tr_text = map f_admin1 df,
        tr_hovertemplate =
          ''<b>%{text}</b><br>'' @ var_label @ '': '' @ ''%{z:.2f} '' @ var_unit
            @ ''<extra></extra>'' \<rparr>)"

text \<open>The layout of lines 125 to 134: the view is centred on the mean centroid of the
  rows of \<open>gdf\<close> whose \<open>admin0\<close> is the selected country.\<close>

definition country_gdf :: "'f region list \<Rightarrow> string option \<Rightarrow> 'f region list" where
  "country_gdf gdf selected_country =
     boolean_index gdf (eq_mask (map (\<lambda>g. Some (g_admin0 g)) gdf) selected_country)"

definition map_layout :: "'f float_ops \<Rightarrow> 'f region list \<Rightarrow> string option \<Rightarrow> 'f layout" where
  "map_layout fl gdf selected_country =
     (let cg = country_gdf gdf selected_country;
          lat0 = series_mean fl (map g_centroid_lat cg);
          lon0 = series_mean fl (map g_centroid_lon cg)
      in \<lparr> mapbox_style = ''carto-positron'', mapbox_zoom = 4,
           mapbox_center_lat = lat0, mapbox_center_lon = lon0,
           margin_r = 0, margin_t = 0, margin_l = 0, margin_b = 0 \<rparr>)"

definition create_map ::
  "'f float_ops \<Rightarrow> 'f region list \<Rightarrow> map_args \<Rightarrow> py_error + 'f figure" where
  "create_map fl gdf a =
     (let df = df_filt (fcst_rows (a_yield_fcst a)) (a_country_fnids a) (a_selected_season a)
                 (a_selected_year a) (a_selected_model a) (a_selected_lead a);
          lay = map_layout fl gdf (a_selected_country a)
      in if df \<noteq> [] then
           (case a_selected_variable a of
              None \<Rightarrow> Inl KeyError
            | Some v \<Rightarrow>
                (case getitem (a_yield_fcst a) df v of
                   Inl e \<Rightarrow> Inl e
                 | Inr zs \<Rightarrow>
                     Inr \<lparr> fig_data = [choropleth_trace (a_geojson a) df zs v],
                           fig_layout = lay \<rparr>))
         else Inr \<lparr> fig_data = [], fig_layout = lay \<rparr>)"

section \<open>The render cache of @st.cache\_resource\<close>

text \<open>
  \<^verbatim>\<open>create_map\<close> is decorated with \<^verbatim>\<open>@st.cache_resource\<close>: a memo table from the
  hash of the arguments to the figure returned for them. The parameter \<^verbatim>\<open>_gdf\<close> begins
  with an underscore, so it is left out of the key. A call that raises stores nothing.
  The hash is a parameter \<open>hash_key\<close>; the third component of the result tells whether
  the figure came from the table.
\<close>

type_synonym ('k, 'f) resource_cache = "('k \<times> 'f figure) list"

definition cached_create_map ::
  "(map_args \<Rightarrow> 'k) \<Rightarrow> 'f float_ops \<Rightarrow> ('k, 'f) resource_cache \<Rightarrow> 'f region list \<Rightarrow> map_args
     \<Rightarrow> (py_error + 'f figure) \<times> ('k, 'f) resource_cache \<times> bool" where
  "cached_create_map hash_key fl cache gdf a =
     (case map_of cache (hash_key a) of
        Some fig \<Rightarrow> (Inr fig, cache, True)
      | None \<Rightarrow>
          (case create_map fl gdf a of
             Inl e \<Rightarrow> (Inl e, cache, False)
           | Inr fig \<Rightarrow> (Inr fig, (hash_key a, fig) # cache, False)))"

section \<open>app.py\<close>

record 'f datasets =
  cape_eo :: eo_table
  viewer_yield :: "yield_row list"
  yield_fcst :: fcst_table
  gdf :: "'f region list"
  geojson :: geojson

datatype page = YieldClimate | HistoricalForecasts

text \<open>What the user did before this run of the script: the page radio, the clicked
  feature's \<open>fnid\<close> (None without a \<^verbatim>\<open>last_active_drawing\<close>), the position chosen in
  each selectbox, and whether this run was started by the Update Map button.\<close>

record user_input =
  ui_page :: page
  ui_click :: "string option"
  ui_eo_var :: nat
  ui_variable :: nat
  ui_country :: nat
  ui_season :: nat
  ui_year :: nat
  ui_model :: nat
  ui_lead :: nat
  ui_update :: bool

text \<open>\<^verbatim>\<open>st.selectbox(label, options)\<close>: the option at the chosen position, the first
  option when that position does not exist, None for an empty option list.\<close>

definition selectbox :: "'a list \<Rightarrow> nat \<Rightarrow> 'a option" where
  "selectbox options i =
     (case options of
        [] \<Rightarrow> None
      | x # _ \<Rightarrow> if i < length options then Some (options ! i) else Some x)"

text \<open>A line chart is named by the call that draws it: the frame it is given and, for an
  EO chart, the variable. The two plotting functions are functions of these arguments, so
  the call determines the figure; what seaborn draws from the frame (it orders the points
  by the x value, joins rows that share one, and leaves out missing observations) is not
  part of the model. Their memoisation is left out for the same reason.\<close>

datatype chart = YieldChart "yield_row list" | EOChart "eo_row list" string

datatype 'f ui =
  Success string | Warning string | Info string | Pyplot chart | PlotlyChart "'f figure"

text \<open>How a run of the script ends: at its last line, at \<^verbatim>\<open>st.stop()\<close>, or with an
  exception. The list holds what the run put on the screen.\<close>

datatype 'f run_result = Finished "'f ui list" | Stopped "'f ui list" | Raised py_error

definition plot_yield_obs :: "yield_row list \<Rightarrow> chart" where
  "plot_yield_obs crop_yield = YieldChart crop_yield"

text \<open>\<^verbatim>\<open>sns.lineplot(data=eo_df, x='date', y=selected_eo)\<close> raises ValueError when the
  frame has no column of that name; \<open>cols\<close> are the variable columns of the frame.\<close>

definition plot_eo_var :: "string list \<Rightarrow> eo_row list \<Rightarrow> string \<Rightarrow> py_error + chart" where
  "plot_eo_var cols eo_df selected_eo =
     (if selected_eo \<in> set cols then Inr (EOChart eo_df selected_eo) else Inl ValueError)"

definition eo_vars :: "string list" where
  "eo_vars = [''ndvi'', ''prcp'', ''pdry'', ''etos'', ''tavg'', ''gdd'', ''kdd'']"

subsection \<open>Page 1: Yield and Climate\<close>

text \<open>Line 74: \<^verbatim>\<open>gdf[gdf['fnid'] == fnid].iloc[0]\<close>.\<close>

definition region_lookup :: "'f region list \<Rightarrow> string \<Rightarrow> py_error + 'f region" where
  "region_lookup g fnid =
     iloc0 (boolean_index g (eq_mask (map (\<lambda>r. Some (g_fnid r)) g) (Some fnid)))"

text \<open>Lines 81 and 82: the yield and EO rows of the clicked region.\<close>

definition crop_yield_of :: "yield_row list \<Rightarrow> string \<Rightarrow> yield_row list" where
  "crop_yield_of vy fnid =
     boolean_index vy (eq_mask (map (\<lambda>r. Some (y_fnid r)) vy) (Some fnid))"

definition eo_df_of :: "eo_row list \<Rightarrow> string \<Rightarrow> eo_row list" where
  "eo_df_of eo fnid =
     boolean_index eo (eq_mask (map (\<lambda>r. Some (e_fnid r)) eo) (Some fnid))"

definition yield_panel :: "yield_row list \<Rightarrow> 'f ui" where
  "yield_panel crop_yield =
     (if crop_yield = [] then Warning ''No yield data available for this region.''
      else Pyplot (plot_yield_obs crop_yield))"

text \<open>Lines 86 to 90: the selectbox over the seven EO variables, \<^verbatim>\<open>index=0\<close>.\<close>

definition selected_eo_var :: "nat \<Rightarrow> string" where
  "selected_eo_var i = (if i < length eo_vars then eo_vars ! i else ''ndvi'')"

definition eo_panel :: "string list \<Rightarrow> eo_row list \<Rightarrow> nat \<Rightarrow> py_error + 'f ui" where
  "eo_panel cols eo_df i =
     (if eo_df \<noteq> [] then
        (case plot_eo_var cols eo_df (selected_eo_var i) of
           Inl e \<Rightarrow> Inl e
         | Inr fig_eo \<Rightarrow> Inr (Pyplot fig_eo))
      else Inr (Warning ''No EO data available for this region.''))"

definition yield_climate_page :: "'f datasets \<Rightarrow> user_input \<Rightarrow> 'f run_result" where
  "yield_climate_page d inp =
     (case ui_click inp of
        None \<Rightarrow> Finished [Info ''Click a region on the map to begin.'']
      | Some fnid \<Rightarrow>
          (case region_lookup (gdf d) fnid of
             Inl e \<Rightarrow> Raised e
           | Inr region_row \<Rightarrow>
               (let region_name = g_admin0 region_row @ '' - '' @ g_admin1 region_row;
                    banner = Success (''Selected Region: '' @ region_name)
                in if fnid \<noteq> [] then
                     (case eo_panel (eo_columns (cape_eo d))
                             (eo_df_of (eo_rows (cape_eo d)) fnid) (ui_eo_var inp) of
                        Inl e \<Rightarrow> Raised e
                      | Inr eo_ui \<Rightarrow>
                          Finished [banner,
                                    yield_panel (crop_yield_of (viewer_yield d) fnid),
                                    eo_ui])
                   else Finished [banner, Info ''Click a region on the map to begin.''])))"

subsection \<open>Page 2: Historical Forecasts\<close>

text \<open>The session state holds the attribute \<open>choropleth_fig\<close>: \<open>None\<close> while the
  attribute does not exist, \<open>Some None\<close> once line 119 has set it to None, \<open>Some (Some fig)\<close>
  after a render. The render cache lives beside it.\<close>

record ('k, 'f) app_state =
  choropleth_fig :: "'f figure option option"
  map_cache :: "('k, 'f) resource_cache"

definition stored_fig :: "('k, 'f) app_state \<Rightarrow> 'f figure option" where
  "stored_fig s = (case choropleth_fig s of None \<Rightarrow> None | Some v \<Rightarrow> v)"

definition variables :: "fcst_table \<Rightarrow> string list" where
  "variables t = filter (\<lambda>col. col \<notin> set key_columns) (columns t)"

definition countries :: "fcst_table \<Rightarrow> string list" where
  "countries t = sort (unique (map f_country (fcst_rows t)))"

definition country_fnids :: "fcst_table \<Rightarrow> string option \<Rightarrow> string list" where
  "country_fnids t selected_country =
     unique (map f_fnid
       (boolean_index (fcst_rows t)
          (eq_mask (map (\<lambda>r. Some (f_country r)) (fcst_rows t)) selected_country)))"

definition seasons :: "fcst_table \<Rightarrow> string list \<Rightarrow> string list" where
  "seasons t cf =
     unique (map f_season
       (boolean_index (fcst_rows t) (isin (map f_fnid (fcst_rows t)) cf)))"

definition yrs :: "fcst_table \<Rightarrow> string list \<Rightarrow> string option \<Rightarrow> int list" where
  "yrs t cf selected_season =
     dropna (map f_year
       (boolean_index (fcst_rows t)
          (mask_and (isin (map f_fnid (fcst_rows t)) cf)
             (eq_mask (map (\<lambda>r. Some (f_season r)) (fcst_rows t)) selected_season))))"

definition year_range :: "int list \<Rightarrow> int list" where
  "year_range ys = py_range (series_min ys) (series_max ys + 1)"

definition models :: "fcst_table \<Rightarrow> string list" where
  "models t = sort (unique (map f_model (fcst_rows t)))"

definition leads :: "fcst_table \<Rightarrow> int list" where
  "leads t = sort (unique (map f_lead (fcst_rows t)))"

definition no_years_message :: string where
  "no_years_message = ''No forecast years available for the selected conditions.''"

text \<open>Lines 177 and 178: the stored figure is drawn when there is one.\<close>

definition show_stored :: "('k, 'f) app_state \<Rightarrow> 'f ui list" where
  "show_stored s = (case stored_fig s of None \<Rightarrow> [] | Some fig \<Rightarrow> [PlotlyChart fig])"

text \<open>Lines 127 to 142: the country selectbox, the region ids of that country, the
  season selectbox over the seasons of those regions, and the years on offer.\<close>

definition selected_country :: "fcst_table \<Rightarrow> user_input \<Rightarrow> string option" where
  "selected_country t inp = selectbox (countries t) (ui_country inp)"

definition selected_fnids :: "fcst_table \<Rightarrow> user_input \<Rightarrow> string list" where
  "selected_fnids t inp = country_fnids t (selected_country t inp)"

definition selected_season :: "fcst_table \<Rightarrow> user_input \<Rightarrow> string option" where
  "selected_season t inp = selectbox (seasons t (selected_fnids t inp)) (ui_season inp)"

definition selected_yrs :: "fcst_table \<Rightarrow> user_input \<Rightarrow> int list" where
  "selected_yrs t inp = yrs t (selected_fnids t inp) (selected_season t inp)"

text \<open>The arguments line 164 passes to \<^verbatim>\<open>create_map\<close>.\<close>

definition selected_args :: "'f datasets \<Rightarrow> user_input \<Rightarrow> map_args" where
  "selected_args d inp =
     (let t = yield_fcst d in
      \<lparr> a_yield_fcst = t, a_geojson = geojson d,
        a_selected_variable = selectbox (variables t) (ui_variable inp),
        a_country_fnids = selected_fnids t inp,
        a_selected_country = selected_country t inp,
        a_selected_season = selected_season t inp,
        a_selected_year = selectbox (year_range (selected_yrs t inp)) (ui_year inp),
        a_selected_model = selectbox (models t) (ui_model inp),
        a_selected_lead = selectbox (leads t) (ui_lead inp) \<rparr>)"

definition historical_forecasts_page ::
  "(map_args \<Rightarrow> 'k) \<Rightarrow> 'f float_ops \<Rightarrow> 'f datasets \<Rightarrow> ('k, 'f) app_state \<Rightarrow> user_input
     \<Rightarrow> ('k, 'f) app_state \<times> 'f run_result" where
  "historical_forecasts_page hash_key fl d s inp =
     (let s0 = (if choropleth_fig s = None then s\<lparr>choropleth_fig := Some None\<rparr> else s)
      in if selected_yrs (yield_fcst d) inp = [] then (s0, Stopped [Warning no_years_message])
         else if ui_update inp then
           (case cached_create_map hash_key fl (map_cache s0) (gdf d) (selected_args d inp) of
              (Inl e, cache, hit) \<Rightarrow> (s0\<lparr>map_cache := cache\<rparr>, Raised e)
            | (Inr fig, cache, hit) \<Rightarrow>
                (let s1 = s0\<lparr>choropleth_fig := Some (Some fig), map_cache := cache\<rparr>
                 in (s1, Finished (show_stored s1))))
         else (s0, Finished (show_stored s0)))"

text \<open>One run of the script.\<close>

definition run_app ::
  "(map_args \<Rightarrow> 'k) \<Rightarrow> 'f float_ops \<Rightarrow> 'f datasets \<Rightarrow> ('k, 'f) app_state \<Rightarrow> user_input
     \<Rightarrow> ('k, 'f) app_state \<times> 'f run_result" where
  "run_app hash_key fl d s inp =
     (case ui_page inp of
        YieldClimate \<Rightarrow> (s, yield_climate_page d inp)
      | HistoricalForecasts \<Rightarrow> historical_forecasts_page hash_key fl d s inp)"

text \<open>The figure a run put on the screen, if any.\<close>

fun first_plotly :: "'f ui list \<Rightarrow> 'f figure option" where
  "first_plotly [] = None"
| "first_plotly (PlotlyChart fig # _) = Some fig"
| "first_plotly (_ # us) = first_plotly us"

fun displayed_fig :: "'f run_result \<Rightarrow> 'f figure option" where
  "displayed_fig (Finished us) = first_plotly us"
| "displayed_fig (Stopped us) = first_plotly us"
| "displayed_fig (Raised e) = None"

section \<open>Notions named by the properties\<close>


text \<open>The yield table is ordered by year within each region: of two rows of one region,
  the earlier row has the earlier or the same year.\<close>

definition ordered_by_year_per_region :: "yield_row list \<Rightarrow> bool" where
  "ordered_by_year_per_region vy =
     sorted_wrt (\<lambda>a b. y_fnid a = y_fnid b \<longrightarrow> y_year a \<le> y_year b) vy"

section \<open>A small data set\<close>

text \<open>Two Kenyan regions with forecasts for 2018 and 2020 (none for 2019), and one
  Malian region whose only forecast row has no year.\<close>

definition ex_row ::
  "string \<Rightarrow> string \<Rightarrow> string \<Rightarrow> string \<Rightarrow> int option \<Rightarrow> string \<Rightarrow> int \<Rightarrow> forecast_row" where
  "ex_row fnid ctry adm seas yr mdl ld =
     \<lparr> f_fnid = fnid, f_country = ctry, f_admin1 = adm, f_admin2 = [],
       f_season = seas, f_year = yr, f_model = mdl, f_lead = ld,
       f_metrics = [(''yield_fcst'', Some 2)] \<rparr>"

definition ex_table :: fcst_table where
  "ex_table =
     \<lparr> metric_columns = [''yield_fcst''],
       fcst_rows =
         [ex_row ''KE1'' ''Kenya'' ''Rift Valley'' ''long'' (Some 2018) ''XGB'' 1,
          ex_row ''KE2'' ''Kenya'' ''Coast'' ''long'' (Some 2020) ''XGB'' 1,
          ex_row ''KE1'' ''Kenya'' ''Rift Valley'' ''short'' (Some 2020) ''XGB'' 1,
          ex_row ''KE1'' ''Kenya'' ''Rift Valley'' ''long'' (Some 2020) ''XGB'' 3,
          ex_row ''ML1'' ''Mali'' ''Sikasso'' ''main'' None ''XGB'' 1] \<rparr>"

text \<open>In the examples a float64 value is its exact rational value, \<open>None\<close> for NaN. The
  centroids are small whole numbers, and their sums and the halves of these sums are
  float64 numbers, so float64 addition and division round nothing here: \<open>ex_float\<close>
  adds from left to right and divides exactly.\<close>

fun ex_add :: "rat option \<Rightarrow> rat option \<Rightarrow> rat option" where
  "ex_add (Some a) (Some b) = Some (a + b)"
| "ex_add a b = None"

fun ex_div :: "rat option \<Rightarrow> nat \<Rightarrow> rat option" where
  "ex_div (Some a) n = Some (a / of_nat n)"
| "ex_div None n = None"

definition ex_float :: "rat option float_ops" where
  "ex_float =
     \<lparr> fl_isnan = (\<lambda>x. x = None), fl_nan = None, fl_zero = Some 0,
       fl_sum = foldl ex_add (Some 0), fl_div = ex_div \<rparr>"

definition ex_gdf :: "rat option region list" where
  "ex_gdf =
     [\<lparr> g_fnid = ''KE1'', g_admin0 = ''Kenya'', g_admin1 = ''Rift Valley'', g_admin2 = ''Nakuru'',
        g_centroid_lat = Some 1, g_centroid_lon = Some 36 \<rparr>,
      \<lparr> g_fnid = ''KE2'', g_admin0 = ''Kenya'', g_admin1 = ''Coast'', g_admin2 = ''Kilifi'',
        g_centroid_lat = Some (- 3), g_centroid_lon = Some 39 \<rparr>,
      \<lparr> g_fnid = ''ML1'', g_admin0 = ''Mali'', g_admin1 = ''Sikasso'', g_admin2 = ''Bougouni'',
        g_centroid_lat = Some 11, g_centroid_lon = Some (- 7) \<rparr>]"

text \<open>The same table when the second Kenyan region has no centroid.\<close>

definition ex_gdf_missing :: "rat option region list" where
  "ex_gdf_missing =
     [\<lparr> g_fnid = ''KE1'', g_admin0 = ''Kenya'', g_admin1 = ''Rift Valley'', g_admin2 = ''Nakuru'',
        g_centroid_lat = Some 1, g_centroid_lon = Some 36 \<rparr>,
      \<lparr> g_fnid = ''KE2'', g_admin0 = ''Kenya'', g_admin1 = ''Coast'', g_admin2 = ''Kilifi'',
        g_centroid_lat = None, g_centroid_lon = None \<rparr>,
      \<lparr> g_fnid = ''ML1'', g_admin0 = ''Mali'', g_admin1 = ''Sikasso'', g_admin2 = ''Bougouni'',
        g_centroid_lat = Some 11, g_centroid_lon = Some (- 7) \<rparr>]"

definition ex_yield :: "yield_row list" where
  "ex_yield =
     [\<lparr> y_fnid = ''KE1'', y_year = 2018, y_yield_obs = 6 / 5 \<rparr>,
      \<lparr> y_fnid = ''ML1'', y_year = 2017, y_yield_obs = 1 \<rparr>,
      \<lparr> y_fnid = ''KE1'', y_year = 2019, y_yield_obs = 3 / 2 \<rparr>]"

definition ex_eo :: "eo_row list" where
  "ex_eo =
     [\<lparr> e_fnid = ''ML1'', e_date = 17000, e_vars = [(''ndvi'', Some (1 / 2))] \<rparr>,
      \<lparr> e_fnid = ''KE1'', e_date = 17532, e_vars = [(''ndvi'', Some (3 / 10))] \<rparr>]"

definition ex_data :: "rat option datasets" where
  "ex_data = \<lparr> cape_eo = \<lparr> eo_columns = eo_vars, eo_rows = ex_eo \<rparr>, viewer_yield = ex_yield, yield_fcst = ex_table,
               gdf = ex_gdf, geojson = [] \<rparr>"

text \<open>A run of the Historical Forecasts page with country \<open>c\<close>, year \<open>y\<close> and the
  button state \<open>u\<close>; a click on the map of the first page.\<close>

definition ex_input :: "nat \<Rightarrow> nat \<Rightarrow> bool \<Rightarrow> user_input" where
  "ex_input c y u =
     \<lparr> ui_page = HistoricalForecasts, ui_click = None, ui_eo_var = 0, ui_variable = 0,
       ui_country = c, ui_season = 0, ui_year = y, ui_model = 0, ui_lead = 0, ui_update = u \<rparr>"

definition ex_click :: "string \<Rightarrow> user_input" where
  "ex_click fnid =
     \<lparr> ui_page = YieldClimate, ui_click = Some fnid, ui_eo_var = 0, ui_variable = 0,
       ui_country = 0, ui_season = 0, ui_year = 0, ui_model = 0, ui_lead = 0,
       ui_update = False \<rparr>"

definition ex_hash :: "map_args \<Rightarrow> string option \<times> int option" where
  "ex_hash a = (a_selected_country a, a_selected_year a)"

definition ex_init :: "(string option \<times> int option, rat option) app_state" where
  "ex_init = \<lparr> choropleth_fig = None, map_cache = [] \<rparr>"

definition ex_rendered :: "(string option \<times> int option, rat option) app_state" where
  "ex_rendered = fst (run_app ex_hash ex_float ex_data ex_init (ex_input 0 2 True))"

section \<open>Facts about the pandas operations\<close>

lemma boolean_index_map: "boolean_index df (map P df) = filter P df"
  unfolding boolean_index_def by (induction df) auto

lemma mask_and_map: "mask_and (map P xs) (map Q xs) = map (\<lambda>x. P x \<and> Q x) xs"
  unfolding mask_and_def by (induction xs) auto

lemma eq_mask_map: "eq_mask (map f xs) v = map (\<lambda>x. py_eq (f x) v) xs"
  unfolding eq_mask_def by simp

lemma isin_map: "isin (map f xs) vals = map (\<lambda>x. f x \<in> set vals) xs"
  unfolding isin_def by simp

lemma py_eq_Some_left: "py_eq (Some a) v \<longleftrightarrow> v = Some a"
  by (cases v) auto

lemma py_eq_iff: "py_eq x v \<longleftrightarrow> x \<noteq> None \<and> x = v"
  by (cases x; cases v) auto

lemma set_unique_from: "set (foldl unique_step acc xs) = set acc \<union> set xs"
  by (induction xs arbitrary: acc) (auto simp: unique_step_def)

lemma distinct_unique_from: "distinct acc \<Longrightarrow> distinct (foldl unique_step acc xs)"
  by (induction xs arbitrary: acc) (auto simp: unique_step_def)

lemma set_unique: "set (unique xs) = set xs"
  by (simp add: unique_def set_unique_from)

lemma distinct_unique: "distinct (unique xs)"
  by (simp add: unique_def distinct_unique_from)

lemma set_dropna: "set (dropna xs) = {x. Some x \<in> set xs}"
  by (induction xs rule: dropna.induct) auto

lemma foldl_min: "foldl min (x::int) xs = Min (set (x # xs))"
proof -
  have "(\<lambda>a s. min s a) = (min :: int \<Rightarrow> int \<Rightarrow> int)"
    by (intro ext) (rule min.commute)
  then show ?thesis
    by (simp only: foldl_conv_fold Min.set_eq_fold)
qed

lemma foldl_max: "foldl max (x::int) xs = Max (set (x # xs))"
proof -
  have "(\<lambda>a s. max s a) = (max :: int \<Rightarrow> int \<Rightarrow> int)"
    by (intro ext) (rule max.commute)
  then show ?thesis
    by (simp only: foldl_conv_fold Max.set_eq_fold)
qed

lemma series_min_Min: "ys \<noteq> [] \<Longrightarrow> series_min ys = Min (set ys)"
  by (cases ys) (simp_all add: foldl_min)

lemma series_max_Max: "ys \<noteq> [] \<Longrightarrow> series_max ys = Max (set ys)"
  by (cases ys) (simp_all add: foldl_max)

lemma df_filt_filter:
  "df_filt rows cf s y m l =
     filter (\<lambda>r. f_fnid r \<in> set cf \<and> py_eq (Some (f_season r)) s \<and> py_eq (f_year r) y
                 \<and> py_eq (Some (f_model r)) m \<and> py_eq (Some (f_lead r)) l) rows"
  unfolding df_filt_def
  by (simp add: isin_map eq_mask_map mask_and_map boolean_index_map)


lemma set_dropna_map: "set (dropna (map f xs)) = {y. \<exists>r \<in> set xs. f r = Some y}"
proof (induction xs)
  case Nil
  show ?case by simp
next
  case (Cons a xs)
  then show ?case by (cases "f a") auto
qed

lemma yrs_set:
  "set (yrs t cf se) =
     {y. \<exists>r \<in> set (fcst_rows t). f_fnid r \<in> set cf \<and> se = Some (f_season r) \<and> f_year r = Some y}"
  unfolding yrs_def
  by (auto simp add: isin_map eq_mask_map mask_and_map boolean_index_map py_eq_Some_left
      set_dropna_map)

lemma region_lookup_filter:
  "region_lookup g fnid = iloc0 (filter (\<lambda>r. g_fnid r = fnid) g)"
  unfolding region_lookup_def
  by (simp add: eq_mask_map boolean_index_map)

lemma region_lookup_absent:
  "fnid \<notin> g_fnid ` set g \<Longrightarrow> region_lookup g fnid = Inl IndexError"
proof -
  assume "fnid \<notin> g_fnid ` set g"
  then have "filter (\<lambda>r. g_fnid r = fnid) g = []"
    by (auto simp: filter_empty_conv)
  then show ?thesis
    by (simp add: region_lookup_filter iloc0_def)
qed

lemma init_state_eq:
  "(if choropleth_fig s = None then s\<lparr>choropleth_fig := Some None\<rparr> else s) =
     s\<lparr>choropleth_fig := Some (stored_fig s)\<rparr>"
  by (cases "choropleth_fig s") (simp_all add: stored_fig_def)

section \<open>The forecast filter of create\_map\<close>

text \<open>
  C1. For every forecast table, every list of the country's region ids and every
  season, year, model and lead, the rows \<^verbatim>\<open>create_map\<close> keeps are exactly the rows of the
  table, in table order, whose season, year, model and lead equal the selected values and
  whose region id is one of the country's; a row that meets only some of the five
  conditions is dropped.
\<close>

theorem df_filt_exact:
  "df_filt rows cf (Some s) (Some y) (Some m) (Some l) =
     filter (\<lambda>r. f_fnid r \<in> set cf \<and> f_season r = s \<and> f_year r = Some y
                 \<and> f_model r = m \<and> f_lead r = l) rows"
  unfolding df_filt_filter by (rule filter_cong) (auto simp: py_eq_iff)

theorem df_filt_exact_witness:
  "df_filt (fcst_rows ex_table) [''KE1'', ''KE2''] (Some ''long'') (Some 2020) (Some ''XGB'') (Some 1)
     = [ex_row ''KE2'' ''Kenya'' ''Coast'' ''long'' (Some 2020) ''XGB'' 1]"
  unfolding df_filt_exact [of "fcst_rows ex_table" "[''KE1'', ''KE2'']" "''long''" 2020 "''XGB''" 1]
  by (simp add: ex_table_def ex_row_def)

section \<open>The region lookup of the first page\<close>

text \<open>
  C2. A click on a region whose id is not in the geometry table: line 74 takes
  \<^verbatim>\<open>.iloc[0]\<close> of an empty frame, and the run ends with IndexError instead of an
  empty-state message. Here the clicked id is \<open>TZ9\<close> and the table holds
  \<open>KE1\<close>, \<open>KE2\<close> and \<open>ML1\<close>.
\<close>

theorem region_lookup_absent_raises:
  "yield_climate_page ex_data (ex_click ''TZ9'') = Raised IndexError"
  by (simp add: yield_climate_page_def ex_click_def ex_data_def ex_gdf_def
      region_lookup_absent)

section \<open>Rendering an empty selection\<close>

text \<open>
  C3. When the five-predicate filter keeps no row, \<^verbatim>\<open>create_map\<close> raises nothing and
  returns a figure without any choropleth trace, whose layout is complete: style, zoom,
  centre and margins.
\<close>

theorem create_map_empty_subset:
  assumes "df_filt (fcst_rows (a_yield_fcst a)) (a_country_fnids a) (a_selected_season a)
             (a_selected_year a) (a_selected_model a) (a_selected_lead a) = []"
  shows "create_map fl g a =
           Inr \<lparr> fig_data = [],
                 fig_layout =
                   \<lparr> mapbox_style = ''carto-positron'', mapbox_zoom = 4,
                     mapbox_center_lat =
                       series_mean fl (map g_centroid_lat (country_gdf g (a_selected_country a))),
                     mapbox_center_lon =
                       series_mean fl (map g_centroid_lon (country_gdf g (a_selected_country a))),
                     margin_r = 0, margin_t = 0, margin_l = 0, margin_b = 0 \<rparr> \<rparr>"
  using assms by (simp add: create_map_def map_layout_def Let_def)

theorem create_map_empty_subset_witness:
  "df_filt (fcst_rows (a_yield_fcst (selected_args ex_data (ex_input 0 1 True))))
     (a_country_fnids (selected_args ex_data (ex_input 0 1 True)))
     (a_selected_season (selected_args ex_data (ex_input 0 1 True)))
     (a_selected_year (selected_args ex_data (ex_input 0 1 True)))
     (a_selected_model (selected_args ex_data (ex_input 0 1 True)))
     (a_selected_lead (selected_args ex_data (ex_input 0 1 True))) = []
   \<and> a_selected_year (selected_args ex_data (ex_input 0 1 True)) = Some 2019
   \<and> create_map ex_float ex_gdf (selected_args ex_data (ex_input 0 1 True)) =
       Inr \<lparr> fig_data = [],
             fig_layout =
               \<lparr> mapbox_style = ''carto-positron'', mapbox_zoom = 4,
                 mapbox_center_lat = Some (- 1), mapbox_center_lon = Some (75 / 2),
                 margin_r = 0, margin_t = 0, margin_l = 0, margin_b = 0 \<rparr> \<rparr>"
proof -
  let ?a = "selected_args ex_data (ex_input 0 1 True)"
  have h: "df_filt (fcst_rows (a_yield_fcst ?a)) (a_country_fnids ?a) (a_selected_season ?a)
             (a_selected_year ?a) (a_selected_model ?a) (a_selected_lead ?a) = []"
    by code_simp
  have y: "a_selected_year ?a = Some 2019"
    by code_simp
  have c: "a_selected_country ?a = Some ''Kenya''"
    by code_simp
  have lat: "series_mean ex_float (map g_centroid_lat (country_gdf ex_gdf (Some ''Kenya'')))
               = Some (- 1)"
    by code_simp
  have lon: "series_mean ex_float (map g_centroid_lon (country_gdf ex_gdf (Some ''Kenya'')))
               = Some (75 / 2)"
    by code_simp
  have r: "create_map ex_float ex_gdf ?a =
       Inr \<lparr> fig_data = [],
             fig_layout =
               \<lparr> mapbox_style = ''carto-positron'', mapbox_zoom = 4,
                 mapbox_center_lat = Some (- 1), mapbox_center_lon = Some (75 / 2),
                 margin_r = 0, margin_t = 0, margin_l = 0, margin_b = 0 \<rparr> \<rparr>"
    using create_map_empty_subset [OF h, of ex_float ex_gdf] unfolding c lat lon .
  show ?thesis
    by (intro conjI) (rule h, rule y, rule r)
qed

section \<open>Filtering by region\<close>

text \<open>
  C4. For every region id, the yield rows and the EO rows the first page keeps are exactly
  the rows of the yield table and of the EO table with that region id, in the order of
  the input tables; and when the yield table is ordered by year within each region, the
  yield rows kept are in non-decreasing year order.
\<close>

theorem region_filter_exact_ordered:
  "crop_yield_of vy fnid = filter (\<lambda>r. y_fnid r = fnid) vy
   \<and> eo_df_of eo fnid = filter (\<lambda>r. e_fnid r = fnid) eo
   \<and> (ordered_by_year_per_region vy \<longrightarrow> sorted (map y_year (crop_yield_of vy fnid)))"
proof (intro conjI impI)
  show y: "crop_yield_of vy fnid = filter (\<lambda>r. y_fnid r = fnid) vy"
    unfolding crop_yield_of_def by (simp add: eq_mask_map boolean_index_map)
  show "eo_df_of eo fnid = filter (\<lambda>r. e_fnid r = fnid) eo"
    unfolding eo_df_of_def by (simp add: eq_mask_map boolean_index_map)
  assume "ordered_by_year_per_region vy"
  then have "sorted_wrt (\<lambda>a b. y_fnid a = y_fnid b \<longrightarrow> y_year a \<le> y_year b)
               (filter (\<lambda>r. y_fnid r = fnid) vy)"
    unfolding ordered_by_year_per_region_def by (rule sorted_wrt_filter)
  then have "sorted_wrt (\<lambda>a b. y_year a \<le> y_year b) (filter (\<lambda>r. y_fnid r = fnid) vy)"
    by (rule sorted_wrt_mono_rel [rotated]) simp
  then show "sorted (map y_year (crop_yield_of vy fnid))"
    by (simp add: y sorted_map)
qed

theorem region_filter_exact_ordered_witness:
  "ordered_by_year_per_region ex_yield
   \<and> crop_yield_of ex_yield ''KE1'' =
       [\<lparr> y_fnid = ''KE1'', y_year = 2018, y_yield_obs = 6 / 5 \<rparr>,
        \<lparr> y_fnid = ''KE1'', y_year = 2019, y_yield_obs = 3 / 2 \<rparr>]
   \<and> eo_df_of ex_eo ''KE1'' =
       [\<lparr> e_fnid = ''KE1'', e_date = 17532, e_vars = [(''ndvi'', Some (3 / 10))] \<rparr>]
   \<and> sorted (map y_year (crop_yield_of ex_yield ''KE1''))"
proof -
  have h: "ordered_by_year_per_region ex_yield"
    by (simp add: ordered_by_year_per_region_def ex_yield_def)
  note r = region_filter_exact_ordered [of ex_yield "''KE1''" ex_eo]
  have a: "crop_yield_of ex_yield ''KE1'' =
       [\<lparr> y_fnid = ''KE1'', y_year = 2018, y_yield_obs = 6 / 5 \<rparr>,
        \<lparr> y_fnid = ''KE1'', y_year = 2019, y_yield_obs = 3 / 2 \<rparr>]"
    using r by (simp add: ex_yield_def)
  have b: "eo_df_of ex_eo ''KE1'' =
       [\<lparr> e_fnid = ''KE1'', e_date = 17532, e_vars = [(''ndvi'', Some (3 / 10))] \<rparr>]"
    using r by (simp add: ex_eo_def)
  have c: "sorted (map y_year (crop_yield_of ex_yield ''KE1''))"
    using r h by blast
  show ?thesis
    by (intro conjI) (rule h, rule a, rule b, rule c)
qed

section \<open>The year availability check\<close>

text \<open>
  C5. When no row of the forecast table with a region id of the selected country and the
  selected season has a year, the run of the Historical Forecasts page stops at the year
  check: the screen holds the warning "No forecast years available for the selected
  conditions." and nothing else, no exception is raised, and neither the stored figure
  nor the render cache changes, whether or not the Update Map button was pressed.
\<close>

theorem no_years_halts:
  assumes "\<forall>r \<in> set (fcst_rows (yield_fcst d)).
             f_fnid r \<in> set (selected_fnids (yield_fcst d) inp)
             \<and> selected_season (yield_fcst d) inp = Some (f_season r)
             \<longrightarrow> f_year r = None"
  shows "snd (historical_forecasts_page h fl d s inp) = Stopped [Warning no_years_message]
         \<and> stored_fig (fst (historical_forecasts_page h fl d s inp)) = stored_fig s
         \<and> map_cache (fst (historical_forecasts_page h fl d s inp)) = map_cache s"
proof -
  have "set (selected_yrs (yield_fcst d) inp) = {}"
    unfolding selected_yrs_def yrs_set using assms by auto
  then have "selected_yrs (yield_fcst d) inp = []"
    by simp
  then have "historical_forecasts_page h fl d s inp =
               (s\<lparr>choropleth_fig := Some (stored_fig s)\<rparr>, Stopped [Warning no_years_message])"
    by (simp add: historical_forecasts_page_def init_state_eq)
  then show ?thesis
    by (simp add: stored_fig_def)
qed

theorem no_years_halts_witness:
  "selected_country ex_table (ex_input 1 0 True) = Some ''Mali''
   \<and> selected_season ex_table (ex_input 1 0 True) = Some ''main''
   \<and> snd (historical_forecasts_page ex_hash ex_float ex_data ex_rendered (ex_input 1 0 True))
       = Stopped [Warning ''No forecast years available for the selected conditions.'']
   \<and> stored_fig (fst (historical_forecasts_page ex_hash ex_float ex_data ex_rendered (ex_input 1 0 True)))
       = stored_fig ex_rendered
   \<and> map_cache (fst (historical_forecasts_page ex_hash ex_float ex_data ex_rendered (ex_input 1 0 True)))
       = map_cache ex_rendered"
proof -
  have t: "yield_fcst ex_data = ex_table"
    by (simp add: ex_data_def)
  have c: "selected_country ex_table (ex_input 1 0 True) = Some ''Mali''"
    by code_simp
  have se: "selected_season ex_table (ex_input 1 0 True) = Some ''main''"
    by code_simp
  have h: "\<forall>r \<in> set (fcst_rows (yield_fcst ex_data)).
             f_fnid r \<in> set (selected_fnids (yield_fcst ex_data) (ex_input 1 0 True))
             \<and> selected_season (yield_fcst ex_data) (ex_input 1 0 True) = Some (f_season r)
             \<longrightarrow> f_year r = None"
    unfolding t se by (simp add: ex_table_def ex_row_def)
  show ?thesis
    using no_years_halts [OF h, of ex_hash ex_float ex_rendered] c se
    by (simp add: no_years_message_def)
qed

section \<open>The season options\<close>

text \<open>
  C8. For every country selection, the season option list holds each season once, and
  its values are exactly the seasons of the forecast rows whose region id is one of the
  selected country's region ids, these being the region ids of the rows of that country.
  The list is a function of the selected country: another country gives the list of that
  country's regions.
\<close>

theorem seasons_union:
  "set (seasons t (country_fnids t c)) =
     f_season ` {r \<in> set (fcst_rows t). f_fnid r \<in> set (country_fnids t c)}
   \<and> distinct (seasons t (country_fnids t c))
   \<and> set (country_fnids t c) = f_fnid ` {r \<in> set (fcst_rows t). c = Some (f_country r)}"
  by (simp add: seasons_def country_fnids_def set_unique distinct_unique isin_map eq_mask_map
      boolean_index_map py_eq_Some_left)

theorem seasons_union_witness:
  "seasons ex_table (country_fnids ex_table (Some ''Kenya'')) = [''long'', ''short'']
   \<and> seasons ex_table (country_fnids ex_table (Some ''Mali'')) = [''main'']
   \<and> f_season ` {r \<in> set (fcst_rows ex_table).
                    f_fnid r \<in> set (country_fnids ex_table (Some ''Kenya''))}
       = {''long'', ''short''}"
proof -
  have k: "seasons ex_table (country_fnids ex_table (Some ''Kenya'')) = [''long'', ''short'']"
    by code_simp
  have m: "seasons ex_table (country_fnids ex_table (Some ''Mali'')) = [''main'']"
    by code_simp
  have "f_season ` {r \<in> set (fcst_rows ex_table).
                    f_fnid r \<in> set (country_fnids ex_table (Some ''Kenya''))}
          = set (seasons ex_table (country_fnids ex_table (Some ''Kenya'')))"
    using seasons_union [of ex_table "Some ''Kenya''"] by simp
  then have s: "f_season ` {r \<in> set (fcst_rows ex_table).
                    f_fnid r \<in> set (country_fnids ex_table (Some ''Kenya''))}
          = {''long'', ''short''}"
    unfolding k by simp
  show ?thesis
    by (intro conjI) (rule k, rule m, rule s)
qed

section \<open>The map centre\<close>




lemma fillna_zero_present:
  "\<forall>x \<in> set xs. \<not> fl_isnan fl x \<Longrightarrow> fillna_zero fl xs = xs"
  by (simp add: fillna_zero_def map_idI)

lemma series_mean_present:
  assumes "xs \<noteq> []" and "\<forall>x \<in> set xs. \<not> fl_isnan fl x"
  shows "series_mean fl xs = fl_div fl (fl_sum fl xs) (length xs)"
proof -
  have "filter (\<lambda>x. \<not> fl_isnan fl x) xs = xs"
    using assms(2) by (simp add: filter_id_conv)
  then have "notna_count fl xs = length xs"
    by (simp add: notna_count_def)
  with assms show ?thesis
    by (simp add: series_mean_def fillna_zero_present)
qed




section \<open>The year options\<close>

lemma py_range_upto: "py_range a (b + 1) = [a..b]"
  by (simp add: py_range_def)

lemma year_range_upto: "ys \<noteq> [] \<Longrightarrow> year_range ys = [Min (set ys)..Max (set ys)]"
  by (simp add: year_range_def py_range_upto series_min_Min series_max_Max)

lemma selectbox_reaches: "y \<in> set options \<Longrightarrow> \<exists>i. selectbox options i = Some y"
proof -
  assume "y \<in> set options"
  then obtain i where "i < length options" and "options ! i = y"
    by (auto simp: in_set_conv_nth)
  then have "selectbox options i = Some y"
    by (cases options) (simp_all add: selectbox_def)
  then show ?thesis ..
qed

text \<open>
  C10. For every country's region ids and season with at least one available year, the year
  option list is the list of all integers from the least to the greatest available year.
  A year between the two for which the table has no row of these regions and this season
  is in the list, the user can select it, and the five-predicate filter then keeps no row,
  whatever the model and the lead.
\<close>

theorem year_range_contiguous:
  assumes "ys = yrs t cf se" and "ys \<noteq> []"
  shows "year_range ys = [Min (set ys)..Max (set ys)]
       \<and> (\<forall>y. Min (set ys) \<le> y \<and> y \<le> Max (set ys) \<and> y \<notin> set ys \<longrightarrow>
                y \<in> set (year_range ys)
              \<and> (\<exists>i. selectbox (year_range ys) i = Some y)
              \<and> df_filt (fcst_rows t) cf se (Some y) m l = [])"
proof (intro conjI allI impI)
  show yr: "year_range ys = [Min (set ys)..Max (set ys)]"
    using assms(2) by (rule year_range_upto)
  fix y
  assume gap: "Min (set ys) \<le> y \<and> y \<le> Max (set ys) \<and> y \<notin> set ys"
  then show mem: "y \<in> set (year_range ys)"
    by (simp add: yr)
  then show "\<exists>i. selectbox (year_range ys) i = Some y"
    by (rule selectbox_reaches)
  have "\<not> (\<exists>r \<in> set (fcst_rows t).
              f_fnid r \<in> set cf \<and> se = Some (f_season r) \<and> f_year r = Some y)"
    using gap unfolding assms(1) yrs_set by blast
  then show "df_filt (fcst_rows t) cf se (Some y) m l = []"
    by (auto simp: df_filt_filter filter_empty_conv py_eq_iff)
qed

theorem year_range_contiguous_witness:
  "yrs ex_table [''KE1'', ''KE2''] (Some ''long'') = [2018, 2020, 2020]
   \<and> year_range (yrs ex_table [''KE1'', ''KE2''] (Some ''long'')) = [2018, 2019, 2020]
   \<and> selectbox (year_range (yrs ex_table [''KE1'', ''KE2''] (Some ''long''))) 1 = Some 2019
   \<and> df_filt (fcst_rows ex_table) [''KE1'', ''KE2''] (Some ''long'') (Some 2019)
       (Some ''XGB'') (Some 1) = []"
proof -
  let ?ys = "yrs ex_table [''KE1'', ''KE2''] (Some ''long'')"
  have ys: "?ys = [2018, 2020, 2020]"
    by code_simp
  have ne: "?ys \<noteq> []"
    by (simp add: ys)
  have lo: "Min (set ?ys) = 2018" and hi: "Max (set ?ys) = 2020"
    unfolding ys by simp_all
  note r = year_range_contiguous [OF refl ne, of "Some ''XGB''" "Some 1"]
  have up: "[2018..2020] = [2018, 2019, 2020::int]"
    by code_simp
  have yr: "year_range ?ys = [2018, 2019, 2020]"
    using r unfolding lo hi up by blast
  have sel: "selectbox (year_range ?ys) 1 = Some 2019"
    unfolding yr by (simp add: selectbox_def)
  have "Min (set ?ys) \<le> 2019 \<and> 2019 \<le> Max (set ?ys) \<and> 2019 \<notin> set ?ys"
    unfolding lo hi by (simp add: ys)
  with r have e: "df_filt (fcst_rows ex_table) [''KE1'', ''KE2''] (Some ''long'') (Some 2019)
       (Some ''XGB'') (Some 1) = []"
    by blast
  show ?thesis
    by (intro conjI) (rule ys, rule yr, rule sel, rule e)
qed

section \<open>The render cache\<close>

lemma cached_create_map_again:
  assumes "cached_create_map h fl c g a = (Inr fig, c1, hit)"
  shows "map_of c1 (h a) = Some fig"
    and "cached_create_map h fl' c1 g' a = (Inr fig, c1, True)"
proof -
  show stored: "map_of c1 (h a) = Some fig"
  proof (cases "map_of c (h a)")
    case (Some f)
    with assms show ?thesis
      by (simp add: cached_create_map_def)
  next
    case None
    with assms have "c1 = (h a, fig) # c"
      by (auto simp: cached_create_map_def split: sum.splits)
    then show ?thesis
      by simp
  qed
  then show "cached_create_map h fl' c1 g' a = (Inr fig, c1, True)"
    by (simp add: cached_create_map_def)
qed

lemma selected_args_cong:
  "yield_fcst d' = yield_fcst d \<Longrightarrow> geojson d' = geojson d
     \<Longrightarrow> selected_args d' inp = selected_args d inp"
  by (simp add: selected_args_def)

lemma stored_fig_update [simp]:
  "stored_fig (s\<lparr>choropleth_fig := Some v\<rparr>) = v"
  by (simp add: stored_fig_def)

lemma stored_fig_cache [simp]:
  "stored_fig (s\<lparr>map_cache := c\<rparr>) = stored_fig s"
  by (simp add: stored_fig_def)

lemma show_stored_init [simp]:
  "show_stored (s\<lparr>choropleth_fig := Some (stored_fig s)\<rparr>) = show_stored s"
  by (simp add: show_stored_def)

lemma displayed_show_stored [simp]:
  "first_plotly (show_stored s) = stored_fig s"
  by (cases "stored_fig s") (simp_all add: show_stored_def)

lemma update_rerun_same:
  assumes "ui_update inp"
    and run: "historical_forecasts_page h fl d s inp = (s1, Finished us)"
    and t: "yield_fcst d' = yield_fcst d"
    and gj: "geojson d' = geojson d"
  shows "historical_forecasts_page h fl' d' s1 inp = (s1, Finished us)"
proof -
  let ?s0 = "s\<lparr>choropleth_fig := Some (stored_fig s)\<rparr>"
  let ?call = "cached_create_map h fl (map_cache ?s0) (gdf d) (selected_args d inp)"
  from run have ys: "selected_yrs (yield_fcst d) inp \<noteq> []"
    by (auto simp: historical_forecasts_page_def)
  obtain r cache hit where call: "?call = (r, cache, hit)"
    by (cases ?call) auto
  with assms(1) run ys obtain f where r: "r = Inr f"
    by (cases r) (auto simp: historical_forecasts_page_def init_state_eq)
  from assms(1) run ys call r
  have s1: "s1 = ?s0\<lparr>choropleth_fig := Some (Some f), map_cache := cache\<rparr>"
    and us: "us = show_stored s1"
    by (auto simp: historical_forecasts_page_def init_state_eq Let_def)
  have args: "selected_args d' inp = selected_args d inp"
    using t gj by (rule selected_args_cong)
  have again: "cached_create_map h fl' cache (gdf d') (selected_args d' inp) = (Inr f, cache, True)"
    unfolding args using call r by (auto intro: cached_create_map_again(2))
  have keep: "s1\<lparr>choropleth_fig := Some (stored_fig s1)\<rparr> = s1"
    and cache: "map_cache s1 = cache"
    and same: "s1\<lparr>choropleth_fig := Some (Some f), map_cache := cache\<rparr> = s1"
    by (simp_all add: s1)
  show ?thesis
    using assms(1) ys t
    by (simp add: historical_forecasts_page_def init_state_eq keep cache again same us Let_def)
qed

text \<open>
  C7. \<^verbatim>\<open>create_map\<close> is a function of its arguments. When a call through the render
  cache returned a figure, the cache it left holds that figure under the key of the
  arguments, and the same call again returns it from the cache without computing
  anything: the result is that figure whatever geometry table and whatever float64
  arithmetic a new computation would have used, and the cache stays as it is. On the
  page: a run started by the Update Map button that ended with a figure on the screen,
  repeated with the same input, ends in the same state with the same screen, also when
  the geometry table and the float64 arithmetic have changed in between.
\<close>

theorem retrigger_hits_cache:
  "(cached_create_map h fl c g a = (Inr fig, c1, hit) \<longrightarrow>
      map_of c1 (h a) = Some fig
      \<and> (\<forall>fl' g'. cached_create_map h fl' c1 g' a = (Inr fig, c1, True)))
   \<and> (ui_update inp \<and> historical_forecasts_page h fl d s inp = (s1, Finished us) \<longrightarrow>
        (\<forall>fl' d'. yield_fcst d' = yield_fcst d \<and> geojson d' = geojson d \<longrightarrow>
           historical_forecasts_page h fl' d' s1 inp = (s1, Finished us)))"
  by (intro conjI impI allI; (elim conjE)?;
      (erule cached_create_map_again | (rule update_rerun_same; assumption)))

theorem retrigger_hits_cache_witness:
  "cached_create_map ex_hash ex_float (map_cache ex_init) ex_gdf
       (selected_args ex_data (ex_input 0 2 True))
     = (Inr (the (stored_fig ex_rendered)), map_cache ex_rendered, False)
   \<and> map_of (map_cache ex_rendered) (ex_hash (selected_args ex_data (ex_input 0 2 True)))
     = Some (the (stored_fig ex_rendered))
   \<and> create_map ex_float ex_gdf_missing (selected_args ex_data (ex_input 0 2 True))
     \<noteq> Inr (the (stored_fig ex_rendered))
   \<and> cached_create_map ex_hash ex_float (map_cache ex_rendered) ex_gdf_missing
       (selected_args ex_data (ex_input 0 2 True))
     = (Inr (the (stored_fig ex_rendered)), map_cache ex_rendered, True)
   \<and> historical_forecasts_page ex_hash ex_float ex_data ex_init (ex_input 0 2 True)
     = (ex_rendered, Finished [PlotlyChart (the (stored_fig ex_rendered))])
   \<and> historical_forecasts_page ex_hash ex_float (ex_data\<lparr>gdf := ex_gdf_missing\<rparr>) ex_rendered
       (ex_input 0 2 True)
     = (ex_rendered, Finished [PlotlyChart (the (stored_fig ex_rendered))])"
proof -
  let ?a = "selected_args ex_data (ex_input 0 2 True)"
  let ?f = "the (stored_fig ex_rendered)"
  note r = retrigger_hits_cache [of ex_hash ex_float "map_cache ex_init" ex_gdf ?a ?f
      "map_cache ex_rendered" False "ex_input 0 2 True" ex_data ex_init ex_rendered
      "[PlotlyChart ?f]"]
  have first: "cached_create_map ex_hash ex_float (map_cache ex_init) ex_gdf ?a
                 = (Inr ?f, map_cache ex_rendered, False)"
    by code_simp
  have u: "ui_update (ex_input 0 2 True)"
    by (simp add: ex_input_def)
  have run: "historical_forecasts_page ex_hash ex_float ex_data ex_init (ex_input 0 2 True)
               = (ex_rendered, Finished [PlotlyChart ?f])"
    by code_simp
  have other: "create_map ex_float ex_gdf_missing ?a \<noteq> Inr ?f"
    by code_simp
  have stored: "map_of (map_cache ex_rendered) (ex_hash ?a) = Some ?f"
    using r first by blast
  have second: "cached_create_map ex_hash ex_float (map_cache ex_rendered) ex_gdf_missing ?a
                  = (Inr ?f, map_cache ex_rendered, True)"
    using r first by blast
  have d': "yield_fcst (ex_data\<lparr>gdf := ex_gdf_missing\<rparr>) = yield_fcst ex_data
              \<and> geojson (ex_data\<lparr>gdf := ex_gdf_missing\<rparr>) = geojson ex_data"
    by simp
  have rerun: "historical_forecasts_page ex_hash ex_float (ex_data\<lparr>gdf := ex_gdf_missing\<rparr>)
                 ex_rendered (ex_input 0 2 True)
                 = (ex_rendered, Finished [PlotlyChart ?f])"
    using r u run d' by blast
  show ?thesis
    by (intro conjI) (rule first, rule stored, rule other, rule second, rule run, rule rerun)
qed

section \<open>The stored figure and the Update Map button\<close>

text \<open>
  C6, as the property is written, fails: the stored figure is not always the displayed
  one after a selector change. In the state left by a render for Kenya, the user selects
  Mali, whose only forecast row has no year, without pressing Update Map. The run stops
  at the year check; the stored figure is unchanged, but the screen shows the warning and
  no map.
\<close>

theorem stale_fig_hidden_counterexample:
  "ui_page (ex_input 1 0 False) = HistoricalForecasts
   \<and> \<not> ui_update (ex_input 1 0 False)
   \<and> stored_fig ex_rendered \<noteq> None
   \<and> stored_fig (fst (run_app ex_hash ex_float ex_data ex_rendered (ex_input 1 0 False)))
       = stored_fig ex_rendered
   \<and> displayed_fig (snd (run_app ex_hash ex_float ex_data ex_rendered (ex_input 1 0 False)))
       \<noteq> stored_fig ex_rendered"
proof -
  have a: "ui_page (ex_input 1 0 False) = HistoricalForecasts"
    and b: "\<not> ui_update (ex_input 1 0 False)"
    by (simp_all add: ex_input_def)
  have c: "stored_fig ex_rendered \<noteq> None"
    by code_simp
  have d: "stored_fig (fst (run_app ex_hash ex_float ex_data ex_rendered (ex_input 1 0 False)))
             = stored_fig ex_rendered"
    by code_simp
  have n: "displayed_fig (snd (run_app ex_hash ex_float ex_data ex_rendered (ex_input 1 0 False))) = None"
    by code_simp
  have e: "displayed_fig (snd (run_app ex_hash ex_float ex_data ex_rendered (ex_input 1 0 False)))
             \<noteq> stored_fig ex_rendered"
    unfolding n using c by auto
  show ?thesis
    by (intro conjI) (rule a, rule b, rule c, rule d, rule e)
qed

text \<open>
  C6, amended. A run of the script that the Update Map button did not start leaves the
  stored figure, the initial null included, and the render cache unchanged, on either
  page and whatever the selectors are. On the Historical Forecasts page such a run
  displays the stored figure when the year check finds a year; when it finds none, the
  run stops with the warning and displays no figure.
\<close>

theorem stored_fig_gated_by_update:
  assumes "\<not> ui_update inp"
  shows "stored_fig (fst (run_app h fl d s inp)) = stored_fig s
       \<and> map_cache (fst (run_app h fl d s inp)) = map_cache s
       \<and> (ui_page inp = HistoricalForecasts \<and> selected_yrs (yield_fcst d) inp \<noteq> [] \<longrightarrow>
            snd (run_app h fl d s inp) = Finished (show_stored s)
          \<and> displayed_fig (snd (run_app h fl d s inp)) = stored_fig s)
       \<and> (ui_page inp = HistoricalForecasts \<and> selected_yrs (yield_fcst d) inp = [] \<longrightarrow>
            snd (run_app h fl d s inp) = Stopped [Warning no_years_message]
          \<and> displayed_fig (snd (run_app h fl d s inp)) = None)"
proof (cases "ui_page inp")
  case YieldClimate
  then show ?thesis
    by (simp add: run_app_def)
next
  case HistoricalForecasts
  show ?thesis
  proof (cases "selected_yrs (yield_fcst d) inp = []")
    case True
    with HistoricalForecasts show ?thesis
      by (simp add: run_app_def historical_forecasts_page_def init_state_eq)
  next
    case False
    with HistoricalForecasts assms show ?thesis
      by (simp add: run_app_def historical_forecasts_page_def init_state_eq)
  qed
qed

theorem stored_fig_gated_by_update_witness:
  "\<not> ui_update (ex_input 0 0 False)
   \<and> selected_yrs (yield_fcst ex_data) (ex_input 0 0 False) = [2018, 2020, 2020]
   \<and> stored_fig ex_rendered \<noteq> None
   \<and> stored_fig (fst (run_app ex_hash ex_float ex_data ex_rendered (ex_input 0 0 False)))
       = stored_fig ex_rendered
   \<and> displayed_fig (snd (run_app ex_hash ex_float ex_data ex_rendered (ex_input 0 0 False)))
       = stored_fig ex_rendered"
proof -
  have u: "\<not> ui_update (ex_input 0 0 False)"
    and p: "ui_page (ex_input 0 0 False) = HistoricalForecasts"
    by (simp_all add: ex_input_def)
  have ys: "selected_yrs (yield_fcst ex_data) (ex_input 0 0 False) = [2018, 2020, 2020]"
    by code_simp
  then have ne: "selected_yrs (yield_fcst ex_data) (ex_input 0 0 False) \<noteq> []"
    by simp
  have st: "stored_fig ex_rendered \<noteq> None"
    by code_simp
  note r = stored_fig_gated_by_update [OF u, of ex_hash ex_float ex_data ex_rendered]
  have a: "stored_fig (fst (run_app ex_hash ex_float ex_data ex_rendered (ex_input 0 0 False)))
             = stored_fig ex_rendered"
    using r by blast
  have b: "displayed_fig (snd (run_app ex_hash ex_float ex_data ex_rendered (ex_input 0 0 False)))
             = stored_fig ex_rendered"
    using r p ne by blast
  show ?thesis
    by (intro conjI) (rule u, rule ys, rule st, rule a, rule b)
qed


end
